theory Spec2Isabelle
  imports Main "HOL-Library.Word"
begin

section \<open>Hot-spot peer cache of the placement driver (package statistics)\<close>

text \<open>
  The development embeds \<^verbatim>\<open>server/statistics/hot_peer_cache.go\<close> (the per-kind flow
  cache with \<^verbatim>\<open>Update\<close>, \<^verbatim>\<open>CheckRegionFlow\<close>, \<^verbatim>\<open>updateHotPeerStat\<close> and the two threshold
  functions) and the dispatching facade \<^verbatim>\<open>HotSpotCache\<close>.

  Conventions of the embedding.
  \<^item> \<^verbatim>\<open>uint64\<close> is \<open>64 word\<close>. Go's \<^verbatim>\<open>int\<close> (fields \<^verbatim>\<open>HotDegree\<close>, \<^verbatim>\<open>AntiCount\<close>) is
    \<open>64 word\<close> as well: \<open>+\<close> and \<open>-\<close> wrap as Go's do, and the test \<^verbatim>\<open>x < 0\<close> is the
    signed comparison \<open>x <s 0\<close>.
  \<^item> A \<^verbatim>\<open>time.Time\<close> is an integer number of nanoseconds; \<^verbatim>\<open>time.Since(t)\<close> is
    \<open>now - t\<close> for the clock reading \<open>now\<close> of the environment, one reading per call
    of \<^verbatim>\<open>CheckRegionFlow\<close>.
  \<^item> \<^verbatim>\<open>float64\<close> arithmetic is idealised: a quotient is exact and the conversion
    \<^verbatim>\<open>uint64(.)\<close> truncates it. Go leaves the result of converting a float that
    \<^verbatim>\<open>uint64\<close> cannot represent (-1 or less, infinite, not a number, too large) to the
    implementation; the environment supplies that result (\<open>unrepresentable\<close>).
  \<^item> \<^verbatim>\<open>RollingBytesRate\<close> is a pointer: \<open>None\<close> is \<^verbatim>\<open>nil\<close>, \<open>Some a\<close> is the address
    of a window in an explicit store of windows. Calling \<^verbatim>\<open>Add\<close> through \<^verbatim>\<open>nil\<close> panics,
    and a panic is the value \<open>Inl NilPointerDereference\<close>.
  \<^item> Go iterates over a map in an unspecified order; the loop of
    \<^verbatim>\<open>CheckRegionFlow\<close> is modelled in ascending order of store id, one of the orders
    the runtime may choose. The loop itself (\<open>checkLoop\<close>) is defined for any order.
  \<^item> Metrics (\<^verbatim>\<open>incMetrics\<close>, \<^verbatim>\<open>CollectMetrics\<close>) have no effect on the cache and are
    left out.
\<close>

subsection \<open>Constants\<close>

type_synonym u64 = "64 word"

definition cacheMaxLen :: nat where "cacheMaxLen = 1000"
definition hotPeerMaxCount :: nat where "hotPeerMaxCount = 400"
definition rollingWindowsSize :: nat where "rollingWindowsSize = 5"
definition hotWriteRegionMinFlowRate :: u64 where "hotWriteRegionMinFlowRate = 16 * 1024"
definition hotReadRegionMinFlowRate :: u64 where "hotReadRegionMinFlowRate = 128 * 1024"
definition hotRegionReportMinInterval :: int where "hotRegionReportMinInterval = 3"
definition hotRegionAntiCount :: "64 word" where "hotRegionAntiCount = 1"
definition RegionHeartBeatReportInterval :: nat where "RegionHeartBeatReportInterval = 60"

text \<open>Nanoseconds in a second: \<^verbatim>\<open>Duration.Seconds()\<close> divides by it.\<close>
definition Second :: int where "Second = 1000000000"

subsection \<open>Data\<close>

datatype FlowKind = WriteFlow | ReadFlow

datatype panic = NilPointerDereference

text \<open>
  Modelled from the spec: \<^verbatim>\<open>RollingStats\<close> (\<^verbatim>\<open>NewRollingStats\<close>, \<^verbatim>\<open>Add\<close>) is not among the
  source files. The spec's RollingRate is a window of capacity W holding the last samples:
  \<^verbatim>\<open>add(x)\<close> appends and, when the window is full, overwrites the oldest sample in arrival
  order. A sample \<^verbatim>\<open>float64(bytesRate)\<close> is recorded as the \<^verbatim>\<open>uint64\<close> it converts.
\<close>
record RollingStats =
  records :: "u64 list"
  wsize :: nat

definition NewRollingStats :: "nat \<Rightarrow> RollingStats" where
  "NewRollingStats n = \<lparr>records = [], wsize = n\<rparr>"

definition Add :: "RollingStats \<Rightarrow> u64 \<Rightarrow> RollingStats" where
  "Add r x =
     (if length (records r) < wsize r then r\<lparr>records := records r @ [x]\<rparr>
      else r\<lparr>records := tl (records r) @ [x]\<rparr>)"

text \<open>The store of windows: the window at each address, and the next unused address.\<close>
record heap =
  cells :: "nat \<Rightarrow> RollingStats"
  nxt :: nat

text \<open>\<^verbatim>\<open>NewRollingStats(n)\<close> as an allocation: the new address and the store holding it.\<close>
definition alloc :: "heap \<Rightarrow> RollingStats \<Rightarrow> nat \<times> heap" where
  "alloc h r = (nxt h, h\<lparr>cells := (cells h)(nxt h := r), nxt := Suc (nxt h)\<rparr>)"

text \<open>\<^verbatim>\<open>p.Add(x)\<close> through the pointer \<open>p\<close>: the window at \<open>p\<close> is updated in place.\<close>
definition ptrAdd :: "heap \<Rightarrow> nat option \<Rightarrow> u64 \<Rightarrow> panic + heap" where
  "ptrAdd h p x =
     (case p of
        None \<Rightarrow> Inl NilPointerDereference
      | Some a \<Rightarrow> Inr (h\<lparr>cells := (cells h)(a := Add (cells h a) x)\<rparr>))"

text \<open>
  Modelled from the spec: the declaration of \<^verbatim>\<open>HotPeerStat\<close> is not among the source
  files; the fields are those the source reads and writes, with the types the spec's
  data model gives them.
\<close>
record HotPeerStat =
  StoreID :: u64
  RegionID :: u64
  HotDegree :: "64 word"
  AntiCount :: "64 word"
  Kind :: FlowKind
  BytesRate :: u64
  KeysRate :: u64
  RollingBytesRate :: "nat option"
  LastUpdateTime :: int
  Version :: u64
  needDelete :: bool
  isLeader :: bool
  isNew :: bool

definition IsNeedDelete :: "HotPeerStat \<Rightarrow> bool" where
  "IsNeedDelete item = needDelete item"

definition IsNew :: "HotPeerStat \<Rightarrow> bool" where
  "IsNew item = isNew item"

subsection \<open>The hot-degree state machine\<close>

text \<open>
  \<^verbatim>\<open>updateHotPeerStat(newItem, oldItem, bytesRate, hotThreshold)\<close>. The result is a panic,
  or the returned pointer (\<open>None\<close> for \<^verbatim>\<open>nil\<close>) with the store of windows after the call.
\<close>
definition updateHotPeerStat ::
  "heap \<Rightarrow> HotPeerStat \<Rightarrow> HotPeerStat option \<Rightarrow> u64 \<Rightarrow> u64 \<Rightarrow> panic + (HotPeerStat option \<times> heap)"
where
  "updateHotPeerStat h newItem oldItem bytesRate hotThreshold =
     (let isHot = (bytesRate \<ge> hotThreshold) in
      if needDelete newItem then Inr (Some newItem, h)
      else
        (case oldItem of
           Some old \<Rightarrow>
             (let n1 = newItem\<lparr>RollingBytesRate := RollingBytesRate old\<rparr>;
                  n2 = (if isHot
                        then n1\<lparr>HotDegree := HotDegree old + 1, AntiCount := hotRegionAntiCount\<rparr>
                        else
                          (let n3 = n1\<lparr>HotDegree := HotDegree old - 1,
                                       AntiCount := AntiCount old - 1\<rparr>
                           in if AntiCount n3 <s 0 then n3\<lparr>needDelete := True\<rparr> else n3))
              in case ptrAdd h (RollingBytesRate n2) bytesRate of
                   Inl p \<Rightarrow> Inl p
                 | Inr h' \<Rightarrow> Inr (Some n2, h'))
         | None \<Rightarrow>
             if \<not> isHot then Inr (None, h)
             else
               (let (a, h1) = alloc h (NewRollingStats rollingWindowsSize);
                    n2 = newItem\<lparr>RollingBytesRate := Some a,
                                 AntiCount := hotRegionAntiCount, isNew := True\<rparr>
                in case ptrAdd h1 (RollingBytesRate n2) bytesRate of
                     Inl p \<Rightarrow> Inl p
                   | Inr h' \<Rightarrow> Inr (Some n2, h'))))"

text \<open>
  The composite literal \<^verbatim>\<open>&HotPeerStat{...}\<close> of \<^verbatim>\<open>CheckRegionFlow\<close>: the fields it does
  not name (\<^verbatim>\<open>HotDegree\<close>, \<^verbatim>\<open>AntiCount\<close>, \<^verbatim>\<open>RollingBytesRate\<close>, \<^verbatim>\<open>isNew\<close>) hold Go's zero values.
\<close>
definition newHotPeerStat ::
  "u64 \<Rightarrow> u64 \<Rightarrow> FlowKind \<Rightarrow> u64 \<Rightarrow> u64 \<Rightarrow> int \<Rightarrow> u64 \<Rightarrow> bool \<Rightarrow> bool \<Rightarrow> HotPeerStat"
where
  "newHotPeerStat storeID regionID k bytesPerSec keysPerSec t ver isExpired leaderHere =
     \<lparr>StoreID = storeID, RegionID = regionID, HotDegree = 0, AntiCount = 0, Kind = k,
      BytesRate = bytesPerSec, KeysRate = keysPerSec, RollingBytesRate = None,
      LastUpdateTime = t, Version = ver, needDelete = isExpired, isLeader = leaderHere,
      isNew = False\<rparr>"

subsection \<open>Regions and store statistics\<close>

text \<open>
  \<^verbatim>\<open>metapb.Peer\<close> and \<^verbatim>\<open>core.RegionInfo\<close> are declared outside the source files; the
  records hold what the getters called by the source return. \<^verbatim>\<open>GetStoreId\<close> is the
  generated getter: on a \<^verbatim>\<open>nil\<close> peer it returns 0.
\<close>
record Peer =
  peerId :: u64
  peerStoreId :: u64

record RegionInfo =
  regionId :: u64
  regionVersion :: u64
  regionPeers :: "Peer list"
  regionLeader :: "Peer option"
  bytesWritten :: u64
  keysWritten :: u64
  bytesRead :: u64
  keysRead :: u64

definition GetStoreId :: "Peer option \<Rightarrow> u64" where
  "GetStoreId p = (case p of None \<Rightarrow> 0 | Some q \<Rightarrow> peerStoreId q)"

definition GetID :: "RegionInfo \<Rightarrow> u64" where
  "GetID region = regionId region"

definition GetPeers :: "RegionInfo \<Rightarrow> Peer list" where
  "GetPeers region = regionPeers region"

definition GetLeader :: "RegionInfo \<Rightarrow> Peer option" where
  "GetLeader region = regionLeader region"

text \<open>\<^verbatim>\<open>region.GetMeta().GetRegionEpoch().GetVersion()\<close>\<close>
definition GetVersion :: "RegionInfo \<Rightarrow> u64" where
  "GetVersion region = regionVersion region"

text \<open>
  Modelled from the spec: \<^verbatim>\<open>RegionInfo.GetStorePeer\<close> is not among the source files; the
  spec's \<^verbatim>\<open>store_peer(store_id)\<close> is the region's peer on that store, or none.
\<close>
definition GetStorePeer :: "RegionInfo \<Rightarrow> u64 \<Rightarrow> Peer option" where
  "GetStorePeer region storeID = find (\<lambda>p. peerStoreId p = storeID) (regionPeers region)"

text \<open>
  Modelled from the spec: \<^verbatim>\<open>StoresStats.GetStoreBytesRate\<close> is not among the source
  files; the spec's \<^verbatim>\<open>store_bytes_rate(store_id)\<close> is the pair of the store's write and
  read byte rates, and a store the statistics do not know has the rates 0.
\<close>
type_synonym StoresStats = "u64 \<rightharpoonup> u64 \<times> u64"

definition GetStoreBytesRate :: "StoresStats \<Rightarrow> u64 \<Rightarrow> u64 \<times> u64" where
  "GetStoreBytesRate stats storeID = (case stats storeID of None \<Rightarrow> (0, 0) | Some p \<Rightarrow> p)"

subsection \<open>Rates\<close>

text \<open>\<^verbatim>\<open>uint64(float64(x) / float64(d))\<close> for a positive constant \<open>d\<close>.\<close>
definition divConst :: "u64 \<Rightarrow> nat \<Rightarrow> u64" where
  "divConst x d = of_nat (unat x div d)"

text \<open>
  \<^verbatim>\<open>uint64(float64(x) / interval)\<close> where \<^verbatim>\<open>interval\<close> is a duration of \<open>ns\<close> nanoseconds
  in seconds. The conversion discards the fraction. For a positive interval the result is
  the truncated quotient when it is below \<open>2 ^ 64\<close>; for a negative interval the quotient
  is not positive, and the result is 0 when it truncates to zero. In every other case
  (a quotient of -1 or less, too large, infinite or not a number for the interval 0) the
  result is the implementation's (\<open>unrep\<close>).
\<close>
definition divSeconds :: "(u64 \<Rightarrow> int \<Rightarrow> u64) \<Rightarrow> u64 \<Rightarrow> int \<Rightarrow> u64" where
  "divSeconds unrep x ns =
     (if 0 < ns \<and> unat x * nat Second div nat ns < 2 ^ 64
      then of_nat (unat x * nat Second div nat ns)
      else if ns < 0 \<and> unat x * nat Second div nat (- ns) = 0
      then 0
      else unrep x ns)"

text \<open>What a call reads from outside the cache: the flag, the clock, the platform.\<close>
record env =
  Denoising :: bool
  now :: int
  unrepresentable :: "u64 \<Rightarrow> int \<Rightarrow> u64"

subsection \<open>The peer store of one store\<close>

text \<open>
  Modelled from the spec: \<^verbatim>\<open>pkg/cache\<close> is not among the source files. The spec's
  PeerStore is a bounded container with 2Q admission: a new key enters the FIFO queue A1,
  a key put again is promoted to the main LRU queue, and eviction takes from A1 first.
  \<^verbatim>\<open>put\<close> inserts or overwrites and may evict one key; \<^verbatim>\<open>peek\<close> reads without touching
  recency. Queues are lists of entries: A1 oldest first, the main queue most recent first.
\<close>
record Cache =
  queueA1 :: "(u64 \<times> HotPeerStat) list"
  queueMain :: "(u64 \<times> HotPeerStat) list"
  capacity :: nat

definition NewCache :: "nat \<Rightarrow> Cache" where
  "NewCache n = \<lparr>queueA1 = [], queueMain = [], capacity = n\<rparr>"

definition Peek :: "Cache \<Rightarrow> u64 \<Rightarrow> HotPeerStat option" where
  "Peek c k = (case map_of (queueMain c) k of Some v \<Rightarrow> Some v | None \<Rightarrow> map_of (queueA1 c) k)"

definition dropKey :: "u64 \<Rightarrow> (u64 \<times> HotPeerStat) list \<Rightarrow> (u64 \<times> HotPeerStat) list" where
  "dropKey k es = filter (\<lambda>e. fst e \<noteq> k) es"

definition Remove :: "Cache \<Rightarrow> u64 \<Rightarrow> Cache" where
  "Remove c k = c\<lparr>queueA1 := dropKey k (queueA1 c), queueMain := dropKey k (queueMain c)\<rparr>"

definition Len :: "Cache \<Rightarrow> nat" where
  "Len c = length (queueA1 c) + length (queueMain c)"

definition evictOne :: "Cache \<Rightarrow> Cache" where
  "evictOne c =
     (if queueA1 c \<noteq> [] then c\<lparr>queueA1 := tl (queueA1 c)\<rparr>
      else c\<lparr>queueMain := butlast (queueMain c)\<rparr>)"

definition Put :: "Cache \<Rightarrow> u64 \<Rightarrow> HotPeerStat \<Rightarrow> Cache" where
  "Put c k v =
     (if map_of (queueMain c) k \<noteq> None
      then c\<lparr>queueMain := (k, v) # dropKey k (queueMain c)\<rparr>
      else if map_of (queueA1 c) k \<noteq> None
      then c\<lparr>queueA1 := dropKey k (queueA1 c), queueMain := (k, v) # queueMain c\<rparr>
      else
        (let c' = (if Len c < capacity c then c else evictOne c)
         in c'\<lparr>queueA1 := queueA1 c' @ [(k, v)]\<rparr>))"

subsection \<open>The flow cache of one kind\<close>

record hotPeerCache =
  kind :: FlowKind
  peersOfStore :: "u64 \<rightharpoonup> Cache"
  storesOfRegion :: "u64 \<rightharpoonup> u64 set"

definition NewHotStoresStats :: "FlowKind \<Rightarrow> hotPeerCache" where
  "NewHotStoresStats k = \<lparr>kind = k, peersOfStore = Map.empty, storesOfRegion = Map.empty\<rparr>"

definition Update :: "hotPeerCache \<Rightarrow> HotPeerStat \<Rightarrow> hotPeerCache" where
  "Update f item =
     (if IsNeedDelete item then
        (let f1 = (case peersOfStore f (StoreID item) of
                     Some peers \<Rightarrow>
                       f\<lparr>peersOfStore :=
                           (peersOfStore f)(StoreID item \<mapsto> Remove peers (RegionID item))\<rparr>
                   | None \<Rightarrow> f)
         in case storesOfRegion f1 (RegionID item) of
              Some stores \<Rightarrow>
                f1\<lparr>storesOfRegion :=
                     (storesOfRegion f1)(RegionID item \<mapsto> stores - {StoreID item})\<rparr>
            | None \<Rightarrow> f1)
      else
        (let peers = (case peersOfStore f (StoreID item) of
                        Some c \<Rightarrow> c
                      | None \<Rightarrow> NewCache cacheMaxLen);
             f1 = f\<lparr>peersOfStore :=
                      (peersOfStore f)(StoreID item \<mapsto> Put peers (RegionID item) item)\<rparr>;
             stores = (case storesOfRegion f1 (RegionID item) of
                         Some ids \<Rightarrow> ids
                       | None \<Rightarrow> {})
         in f1\<lparr>storesOfRegion :=
                (storesOfRegion f1)(RegionID item \<mapsto> insert (StoreID item) stores)\<rparr>))"

definition getBytesFlow :: "hotPeerCache \<Rightarrow> RegionInfo \<Rightarrow> u64" where
  "getBytesFlow f region =
     (case kind f of WriteFlow \<Rightarrow> bytesWritten region | ReadFlow \<Rightarrow> bytesRead region)"

definition getKeysFlow :: "hotPeerCache \<Rightarrow> RegionInfo \<Rightarrow> u64" where
  "getKeysFlow f region =
     (case kind f of WriteFlow \<Rightarrow> keysWritten region | ReadFlow \<Rightarrow> keysRead region)"

definition getOldHotPeerStat :: "hotPeerCache \<Rightarrow> u64 \<Rightarrow> u64 \<Rightarrow> HotPeerStat option" where
  "getOldHotPeerStat f regionID storeID =
     (case peersOfStore f storeID of
        Some hotPeers \<Rightarrow> Peek hotPeers regionID
      | None \<Rightarrow> None)"

definition isRegionExpired :: "hotPeerCache \<Rightarrow> RegionInfo \<Rightarrow> u64 \<Rightarrow> bool" where
  "isRegionExpired f region storeID =
     (case kind f of
        WriteFlow \<Rightarrow> GetStorePeer region storeID = None
      | ReadFlow \<Rightarrow> GetStoreId (GetLeader region) \<noteq> storeID)"

definition calculateWriteHotThresholdWithStore :: "StoresStats \<Rightarrow> u64 \<Rightarrow> u64" where
  "calculateWriteHotThresholdWithStore stats storeID =
     (let writeBytes = fst (GetStoreBytesRate stats storeID);
          hotRegionThreshold = divConst writeBytes hotPeerMaxCount
      in if hotRegionThreshold < hotWriteRegionMinFlowRate then hotWriteRegionMinFlowRate
         else hotRegionThreshold)"

definition calculateReadHotThresholdWithStore :: "StoresStats \<Rightarrow> u64 \<Rightarrow> u64" where
  "calculateReadHotThresholdWithStore stats storeID =
     (let readBytes = snd (GetStoreBytesRate stats storeID);
          hotRegionThreshold = divConst readBytes hotPeerMaxCount
      in if hotRegionThreshold < hotReadRegionMinFlowRate then hotReadRegionMinFlowRate
         else hotRegionThreshold)"

definition calcHotThreshold :: "hotPeerCache \<Rightarrow> StoresStats \<Rightarrow> u64 \<Rightarrow> u64" where
  "calcHotThreshold f stats storeID =
     (case kind f of
        WriteFlow \<Rightarrow> calculateWriteHotThresholdWithStore stats storeID
      | ReadFlow \<Rightarrow> calculateReadHotThresholdWithStore stats storeID)"

text \<open>
  \<^verbatim>\<open>getAllStoreIDs\<close>: the set starts as a copy of the old stores of the region, and the
  loop over the current peers adds the store of each peer it does not skip.
\<close>
definition addPeerStore :: "hotPeerCache \<Rightarrow> RegionInfo \<Rightarrow> u64 set \<Rightarrow> Peer \<Rightarrow> u64 set" where
  "addPeerStore f region storeIDs peer =
     (if kind f = ReadFlow \<and> GetStoreId (Some peer) \<noteq> GetStoreId (GetLeader region)
      then storeIDs
      else if GetStoreId (Some peer) \<notin> storeIDs then insert (GetStoreId (Some peer)) storeIDs
      else storeIDs)"

definition getAllStoreIDs :: "hotPeerCache \<Rightarrow> RegionInfo \<Rightarrow> u64 set" where
  "getAllStoreIDs f region =
     foldl (addPeerStore f region)
       (case storesOfRegion f (GetID region) of Some ids \<Rightarrow> ids | None \<Rightarrow> {})
       (GetPeers region)"

text \<open>
  The body of the loop of \<^verbatim>\<open>CheckRegionFlow\<close> for one store. \<open>None\<close> for the rates is
  the \<^verbatim>\<open>continue\<close>; the result \<open>None\<close> is a store for which nothing is appended.
\<close>
definition checkStore ::
  "env \<Rightarrow> hotPeerCache \<Rightarrow> RegionInfo \<Rightarrow> StoresStats \<Rightarrow> heap \<Rightarrow> u64
     \<Rightarrow> panic + (HotPeerStat option \<times> heap)"
where
  "checkStore e f region stats h storeID =
     (let bytesFlow = getBytesFlow f region;
          keysFlow = getKeysFlow f region;
          bytesPerSecInit = divConst bytesFlow RegionHeartBeatReportInterval;
          keysPerSecInit = divConst keysFlow RegionHeartBeatReportInterval;
          isExpired = isRegionExpired f region storeID;
          oldItem = getOldHotPeerStat f (GetID region) storeID;
          rates =
            (case oldItem of
               Some old \<Rightarrow>
                 if Denoising e then
                   (let interval = now e - LastUpdateTime old
                    in if interval < hotRegionReportMinInterval * Second \<and> \<not> isExpired
                       then None
                       else Some (divSeconds (unrepresentable e) bytesFlow interval,
                                  divSeconds (unrepresentable e) keysFlow interval))
                 else Some (bytesPerSecInit, keysPerSecInit)
             | None \<Rightarrow> Some (bytesPerSecInit, keysPerSecInit))
      in case rates of
           None \<Rightarrow> Inr (None, h)
         | Some (bytesPerSec, keysPerSec) \<Rightarrow>
             updateHotPeerStat h
               (newHotPeerStat storeID (GetID region) (kind f) bytesPerSec keysPerSec (now e)
                  (GetVersion region) isExpired (GetStoreId (GetLeader region) = storeID))
               oldItem bytesPerSec (calcHotThreshold f stats storeID))"

fun checkLoop ::
  "env \<Rightarrow> hotPeerCache \<Rightarrow> RegionInfo \<Rightarrow> StoresStats \<Rightarrow> u64 list
     \<Rightarrow> HotPeerStat list \<times> heap \<Rightarrow> panic + (HotPeerStat list \<times> heap)"
where
  "checkLoop e f region stats [] acc = Inr acc"
| "checkLoop e f region stats (storeID # rest) (ret, h) =
     (case checkStore e f region stats h storeID of
        Inl p \<Rightarrow> Inl p
      | Inr (None, h') \<Rightarrow> checkLoop e f region stats rest (ret, h')
      | Inr (Some newItem, h') \<Rightarrow> checkLoop e f region stats rest (ret @ [newItem], h'))"

definition CheckRegionFlow ::
  "env \<Rightarrow> hotPeerCache \<Rightarrow> RegionInfo \<Rightarrow> StoresStats \<Rightarrow> heap
     \<Rightarrow> panic + (HotPeerStat list \<times> heap)"
where
  "CheckRegionFlow e f region stats h =
     checkLoop e f region stats (sorted_list_of_set (getAllStoreIDs f region)) ([], h)"

subsection \<open>The facade\<close>

text \<open>
  The state of the program is the two flow caches and the store of windows their stats
  point into. A check returns the candidates and the state it leaves.
\<close>
record HotSpotCache =
  writeFlow :: hotPeerCache
  readFlow :: hotPeerCache
  windows :: heap

definition NewHotSpotCache :: HotSpotCache where
  "NewHotSpotCache =
     \<lparr>writeFlow = NewHotStoresStats WriteFlow, readFlow = NewHotStoresStats ReadFlow,
      windows = \<lparr>cells = (\<lambda>a. NewRollingStats 0), nxt = 0\<rparr>\<rparr>"

definition CheckWrite ::
  "env \<Rightarrow> HotSpotCache \<Rightarrow> RegionInfo \<Rightarrow> StoresStats \<Rightarrow> panic + (HotPeerStat list \<times> HotSpotCache)"
where
  "CheckWrite e w region stats =
     (case CheckRegionFlow e (writeFlow w) region stats (windows w) of
        Inl p \<Rightarrow> Inl p
      | Inr (ret, h') \<Rightarrow> Inr (ret, w\<lparr>windows := h'\<rparr>))"

definition CheckRead ::
  "env \<Rightarrow> HotSpotCache \<Rightarrow> RegionInfo \<Rightarrow> StoresStats \<Rightarrow> panic + (HotPeerStat list \<times> HotSpotCache)"
where
  "CheckRead e w region stats =
     (case CheckRegionFlow e (readFlow w) region stats (windows w) of
        Inl p \<Rightarrow> Inl p
      | Inr (ret, h') \<Rightarrow> Inr (ret, w\<lparr>windows := h'\<rparr>))"

definition HotSpotCacheUpdate :: "HotSpotCache \<Rightarrow> HotPeerStat \<Rightarrow> HotSpotCache" where
  "HotSpotCacheUpdate w item =
     (case Kind item of
        WriteFlow \<Rightarrow> w\<lparr>writeFlow := Update (writeFlow w) item\<rparr>
      | ReadFlow \<Rightarrow> w\<lparr>readFlow := Update (readFlow w) item\<rparr>)"

subsection \<open>Vocabulary of the properties\<close>

text \<open>
  The denoising test of the loop body for an old stat last updated at \<open>t0\<close>: the report
  comes too fast. Then the body \<^verbatim>\<open>continue\<close>s unless the peer is expired.
\<close>
definition suppressed :: "env \<Rightarrow> int \<Rightarrow> bool" where
  "suppressed e t0 = (Denoising e \<and> now e - t0 < hotRegionReportMinInterval * Second)"

text \<open>The rate the loop body computes from a flow when an old stat last updated at \<open>t0\<close> exists.\<close>
definition intervalRate :: "env \<Rightarrow> u64 \<Rightarrow> int \<Rightarrow> u64" where
  "intervalRate e flow t0 =
     (if Denoising e then divSeconds (unrepresentable e) flow (now e - t0)
      else divConst flow RegionHeartBeatReportInterval)"

text \<open>The keys a peer store holds.\<close>
definition keysOf :: "Cache \<Rightarrow> u64 set" where
  "keysOf c = fst ` set (queueMain c) \<union> fst ` set (queueA1 c)"

text \<open>
  The forward half of the mutual consistency of the two indices: a region cached for a
  store has that store among the stores recorded for the region.
\<close>
definition fwdConsistent :: "hotPeerCache \<Rightarrow> bool" where
  "fwdConsistent f =
     (\<forall>s r. getOldHotPeerStat f r s \<noteq> None \<longrightarrow>
        (\<exists>ids. storesOfRegion f r = Some ids \<and> s \<in> ids))"

section \<open>Scenarios\<close>

text \<open>
  Concrete inputs on which the theorems below are exercised. Region 1 has one peer, on the
  store named; its write flow is 30 MiB per heartbeat when hot and 1 KiB when cold. Region
  2 has peers on the stores 4, 5 and 6 and a read flow of 20 MiB. The clock of \<open>envAt n\<close>
  reads \<open>n\<close> seconds, denoising is on, and the platform converts an unrepresentable float
  to 0. \<open>item1\<close> to \<open>item4\<close> are the stats the successive checks of region 1 return, and
  \<open>heap1\<close> to \<open>heap4\<close> the stores of windows they leave.
\<close>

definition heap0 :: heap where
  "heap0 = \<lparr>cells = (\<lambda>a. NewRollingStats 0), nxt = 0\<rparr>"

definition envAt :: "int \<Rightarrow> env" where
  "envAt secs = \<lparr>Denoising = True, now = secs * Second, unrepresentable = (\<lambda>x ns. 0)\<rparr>"

definition noStats :: StoresStats where
  "noStats = Map.empty"

definition peerOn :: "u64 \<Rightarrow> Peer" where
  "peerOn s = \<lparr>peerId = 10 + s, peerStoreId = s\<rparr>"

definition writeRegion :: "u64 \<Rightarrow> u64 \<Rightarrow> u64 \<Rightarrow> RegionInfo" where
  "writeRegion s bytes keys =
     \<lparr>regionId = 1, regionVersion = 1, regionPeers = [peerOn s], regionLeader = Some (peerOn s),
      bytesWritten = bytes, keysWritten = keys, bytesRead = 0, keysRead = 0\<rparr>"

definition hotRegion :: RegionInfo where "hotRegion = writeRegion 1 31457280 30000"
definition coldRegion :: RegionInfo where "coldRegion = writeRegion 1 1024 10"
definition movedRegion :: RegionInfo where "movedRegion = writeRegion 2 31457280 30000"

definition item1 :: HotPeerStat where
  "item1 = \<lparr>StoreID = 1, RegionID = 1, HotDegree = 0, AntiCount = 1, Kind = WriteFlow,
      BytesRate = 524288, KeysRate = 500, RollingBytesRate = Some 0,
      LastUpdateTime = 0, Version = 1, needDelete = False, isLeader = True, isNew = True\<rparr>"

definition item2 :: HotPeerStat where
  "item2 = \<lparr>StoreID = 1, RegionID = 1, HotDegree = 1, AntiCount = 1, Kind = WriteFlow,
      BytesRate = 3145728, KeysRate = 3000, RollingBytesRate = Some 0,
      LastUpdateTime = 10000000000, Version = 1, needDelete = False, isLeader = True, isNew = False\<rparr>"

definition heap1 :: heap where
  "heap1 = \<lparr>cells = (\<lambda>a. NewRollingStats 0)(0 := \<lparr>records = [524288], wsize = 5\<rparr>), nxt = 1\<rparr>"

definition heap2 :: heap where
  "heap2 = \<lparr>cells = (\<lambda>a. NewRollingStats 0)(0 := \<lparr>records = [524288, 3145728], wsize = 5\<rparr>), nxt = 1\<rparr>"

definition cache1 :: hotPeerCache where
  "cache1 = Update (NewHotStoresStats WriteFlow) item1"

definition cache2 :: hotPeerCache where
  "cache2 = Update cache1 item2"

definition item3 :: HotPeerStat where
  "item3 = \<lparr>StoreID = 1, RegionID = 1, HotDegree = 0, AntiCount = 0, Kind = WriteFlow,
      BytesRate = 102, KeysRate = 1, RollingBytesRate = Some 0,
      LastUpdateTime = 20000000000, Version = 1, needDelete = False, isLeader = True,
      isNew = False\<rparr>"

definition item4 :: HotPeerStat where
  "item4 = \<lparr>StoreID = 1, RegionID = 1, HotDegree = - 1, AntiCount = - 1, Kind = WriteFlow,
      BytesRate = 102, KeysRate = 1, RollingBytesRate = Some 0,
      LastUpdateTime = 30000000000, Version = 1, needDelete = True, isLeader = True,
      isNew = False\<rparr>"

definition heap3 :: heap where
  "heap3 = \<lparr>cells = (\<lambda>a. NewRollingStats 0)
               (0 := \<lparr>records = [524288, 3145728, 102], wsize = 5\<rparr>), nxt = 1\<rparr>"

definition heap4 :: heap where
  "heap4 = \<lparr>cells = (\<lambda>a. NewRollingStats 0)
               (0 := \<lparr>records = [524288, 3145728, 102, 102], wsize = 5\<rparr>), nxt = 1\<rparr>"

definition tombstone1 :: HotPeerStat where
  "tombstone1 = \<lparr>StoreID = 1, RegionID = 1, HotDegree = 0, AntiCount = 0, Kind = WriteFlow,
      BytesRate = 3145728, KeysRate = 3000, RollingBytesRate = None,
      LastUpdateTime = 20000000000, Version = 1, needDelete = True, isLeader = False,
      isNew = False\<rparr>"



definition readRegion :: "Peer option \<Rightarrow> RegionInfo" where
  "readRegion ld =
     \<lparr>regionId = 2, regionVersion = 1, regionPeers = [peerOn 4, peerOn 5, peerOn 6],
      regionLeader = ld, bytesWritten = 0, keysWritten = 0,
      bytesRead = 20971520, keysRead = 20000\<rparr>"

definition readItem4 :: HotPeerStat where
  "readItem4 = \<lparr>StoreID = 4, RegionID = 2, HotDegree = 0, AntiCount = 1, Kind = ReadFlow,
      BytesRate = 349525, KeysRate = 333, RollingBytesRate = Some 0,
      LastUpdateTime = 0, Version = 1, needDelete = False, isLeader = True, isNew = True\<rparr>"

definition readTombstone4 :: HotPeerStat where
  "readTombstone4 = \<lparr>StoreID = 4, RegionID = 2, HotDegree = 0, AntiCount = 0, Kind = ReadFlow,
      BytesRate = 349525, KeysRate = 333, RollingBytesRate = None,
      LastUpdateTime = 60000000000, Version = 1, needDelete = True, isLeader = False,
      isNew = False\<rparr>"

definition heapRead :: heap where
  "heapRead = \<lparr>cells = (\<lambda>a. NewRollingStats 0)(0 := \<lparr>records = [349525], wsize = 5\<rparr>), nxt = 1\<rparr>"

definition hotSpotRead :: HotSpotCache where
  "hotSpotRead = \<lparr>writeFlow = NewHotStoresStats WriteFlow,
      readFlow = Update (NewHotStoresStats ReadFlow) readItem4, windows = heapRead\<rparr>"

definition hotSpot1 :: HotSpotCache where
  "hotSpot1 = \<lparr>writeFlow = cache1, readFlow = NewHotStoresStats ReadFlow, windows = heap1\<rparr>"


lemmas scenario_defs = envAt_def noStats_def peerOn_def writeRegion_def hotRegion_def
  coldRegion_def movedRegion_def item1_def item2_def heap0_def heap1_def heap2_def
  cache1_def cache2_def

lemmas model_defs = checkStore_def updateHotPeerStat_def newHotPeerStat_def
  getBytesFlow_def getKeysFlow_def isRegionExpired_def getOldHotPeerStat_def
  calcHotThreshold_def calculateWriteHotThresholdWithStore_def
  calculateReadHotThresholdWithStore_def GetStoreBytesRate_def divConst_def divSeconds_def
  GetID_def GetPeers_def GetLeader_def GetVersion_def GetStorePeer_def GetStoreId_def
  alloc_def ptrAdd_def Add_def NewRollingStats_def
  Update_def IsNeedDelete_def NewHotStoresStats_def NewCache_def Peek_def Put_def Remove_def
  Len_def evictOne_def dropKey_def
  getAllStoreIDs_def addPeerStore_def CheckRegionFlow_def
  cacheMaxLen_def hotPeerMaxCount_def rollingWindowsSize_def hotWriteRegionMinFlowRate_def
  hotReadRegionMinFlowRate_def hotRegionReportMinInterval_def hotRegionAntiCount_def
  RegionHeartBeatReportInterval_def Second_def

lemmas eval_defs = scenario_defs model_defs Let_def word_le_nat_alt word_less_nat_alt
  CheckRead_def CheckWrite_def NewHotSpotCache_def suppressed_def intervalRate_def

section \<open>Properties\<close>

subsection \<open>The state machine, branch by branch\<close>

lemma updateHotPeerStat_no_old:
  "\<not> needDelete n \<Longrightarrow>
   updateHotPeerStat h n None rate thr =
     (if rate < thr then Inr (None, h)
      else Inr (Some (n\<lparr>RollingBytesRate := Some (nxt h), AntiCount := hotRegionAntiCount,
                         isNew := True\<rparr>),
                \<lparr>cells = (cells h)(nxt h := Add (NewRollingStats rollingWindowsSize) rate),
                 nxt = Suc (nxt h)\<rparr>))"
  by (simp add: updateHotPeerStat_def alloc_def ptrAdd_def not_le)

lemma updateHotPeerStat_old_hot:
  "\<not> needDelete n \<Longrightarrow> thr \<le> rate \<Longrightarrow>
   updateHotPeerStat h n (Some old) rate thr =
     (case RollingBytesRate old of
        None \<Rightarrow> Inl NilPointerDereference
      | Some a \<Rightarrow>
          Inr (Some (n\<lparr>RollingBytesRate := Some a, HotDegree := HotDegree old + 1,
                       AntiCount := hotRegionAntiCount\<rparr>),
               h\<lparr>cells := (cells h)(a := Add (cells h a) rate)\<rparr>))"
  by (simp add: updateHotPeerStat_def ptrAdd_def split: option.splits)

lemma sless_pred: "(0::64 word) <s a \<Longrightarrow> \<not> (a - 1 <s 0)"
proof -
  assume "0 <s a"
  then have pos: "0 < sint a" by (simp add: word_sless_alt)
  have ub: "sint a < 2 ^ 63" using sint_lt [of a] by simp
  have "sint (a - 1) = signed_take_bit 63 (sint a - 1)"
    by (simp add: sint_word_ariths)
  also have "\<dots> = sint a - 1"
    using pos ub by (intro signed_take_bit_int_eq_self) auto
  finally show ?thesis using pos by (simp add: word_sless_alt)
qed

lemma updateHotPeerStat_old_cold:
  "\<not> needDelete n \<Longrightarrow> rate < thr \<Longrightarrow>
   updateHotPeerStat h n (Some old) rate thr =
     (case RollingBytesRate old of
        None \<Rightarrow> Inl NilPointerDereference
      | Some a \<Rightarrow>
          Inr (Some (n\<lparr>RollingBytesRate := Some a, HotDegree := HotDegree old - 1,
                       AntiCount := AntiCount old - 1,
                       needDelete := (AntiCount old - 1 <s 0)\<rparr>),
               h\<lparr>cells := (cells h)(a := Add (cells h a) rate)\<rparr>))"
  by (simp add: updateHotPeerStat_def ptrAdd_def Let_def not_le[symmetric] split: option.splits)

lemma updateHotPeerStat_expired:
  "needDelete n \<Longrightarrow> updateHotPeerStat h n old rate thr = Inr (Some n, h)"
  by (simp add: updateHotPeerStat_def)


lemma updateHotPeerStat_heap:
  assumes "updateHotPeerStat h n oldItem rate thr = Inr (r, h')"
  shows "nxt h \<le> nxt h' \<and>
         (\<forall>a. cells h' a \<noteq> cells h a \<longrightarrow>
            nxt h \<le> a \<or>
            (\<exists>old. oldItem = Some old \<and> RollingBytesRate old = Some a \<and> \<not> needDelete n))"
  using assms
  by (auto simp: updateHotPeerStat_def Let_def alloc_def ptrAdd_def
      split: if_splits option.splits sum.splits)

lemma newHotPeerStat_sel [simp]:
  "StoreID (newHotPeerStat s r k b ks t v x l) = s"
  "RegionID (newHotPeerStat s r k b ks t v x l) = r"
  "HotDegree (newHotPeerStat s r k b ks t v x l) = 0"
  "AntiCount (newHotPeerStat s r k b ks t v x l) = 0"
  "Kind (newHotPeerStat s r k b ks t v x l) = k"
  "BytesRate (newHotPeerStat s r k b ks t v x l) = b"
  "KeysRate (newHotPeerStat s r k b ks t v x l) = ks"
  "RollingBytesRate (newHotPeerStat s r k b ks t v x l) = None"
  "LastUpdateTime (newHotPeerStat s r k b ks t v x l) = t"
  "Version (newHotPeerStat s r k b ks t v x l) = v"
  "needDelete (newHotPeerStat s r k b ks t v x l) = x"
  "isLeader (newHotPeerStat s r k b ks t v x l) = l"
  "isNew (newHotPeerStat s r k b ks t v x l) = False"
  by (simp_all add: newHotPeerStat_def)

subsection \<open>The peer store and \<^verbatim>\<open>Update\<close>\<close>

lemma Peek_None_iff: "(Peek c r = None) = (r \<notin> keysOf c)"
proof -
  have a: "(map_of (queueMain c) r = None) = (r \<notin> fst ` set (queueMain c))"
    by (rule map_of_eq_None_iff)
  have b: "(map_of (queueA1 c) r = None) = (r \<notin> fst ` set (queueA1 c))"
    by (rule map_of_eq_None_iff)
  show ?thesis
    by (cases "map_of (queueMain c) r") (use a b in \<open>auto simp: Peek_def keysOf_def\<close>)
qed

lemma Peek_Some_iff: "(\<exists>y. Peek c r = Some y) = (r \<in> keysOf c)"
  using Peek_None_iff [of c r] by auto

lemma getOld_cached_iff:
  "(getOldHotPeerStat f r s \<noteq> None) = (\<exists>c. peersOfStore f s = Some c \<and> r \<in> keysOf c)"
  by (simp add: getOldHotPeerStat_def Peek_Some_iff split: option.splits)

lemma set_dropKey: "fst ` set (dropKey k es) = fst ` set es - {k}"
  by (auto simp: dropKey_def)

lemma keysOf_Remove: "keysOf (Remove c k) = keysOf c - {k}"
  by (auto simp: keysOf_def Remove_def set_dropKey)

lemma keysOf_evictOne: "keysOf (evictOne c) \<subseteq> keysOf c"
proof -
  have "set (tl (queueA1 c)) \<subseteq> set (queueA1 c)"
    by (cases "queueA1 c") auto
  moreover have "set (butlast (queueMain c)) \<subseteq> set (queueMain c)"
    by (auto dest: in_set_butlastD)
  ultimately show ?thesis
    by (auto simp: keysOf_def evictOne_def)
qed

lemma keysOf_Put: "keysOf (Put c k v) \<subseteq> insert k (keysOf c)"
proof -
  have "keysOf (c'\<lparr>queueA1 := queueA1 c' @ [(k, v)]\<rparr>) = insert k (keysOf c')" for c'
    by (auto simp: keysOf_def)
  moreover have "keysOf (c\<lparr>queueMain := (k, v) # dropKey k (queueMain c)\<rparr>) \<subseteq> insert k (keysOf c)"
    by (auto simp: keysOf_def set_dropKey)
  moreover have "keysOf (c\<lparr>queueA1 := dropKey k (queueA1 c), queueMain := (k, v) # queueMain c\<rparr>)
      \<subseteq> insert k (keysOf c)"
    by (auto simp: keysOf_def set_dropKey)
  ultimately show ?thesis
    using keysOf_evictOne [of c] by (auto simp: Put_def Let_def)
qed

lemma Peek_fresh_A1:
  assumes "k \<notin> keysOf c'"
  shows "Peek (c'\<lparr>queueA1 := queueA1 c' @ [(k, v)]\<rparr>) k = Some v"
proof -
  from assms have "map_of (queueMain c') k = None" "map_of (queueA1 c') k = None"
    by (auto simp: keysOf_def map_of_eq_None_iff)
  then show ?thesis
    by (simp add: Peek_def map_add_def)
qed

lemma Peek_Put_same: "Peek (Put c k v) k = Some v"
proof (cases "map_of (queueMain c) k \<noteq> None")
  case True
  then show ?thesis by (simp add: Put_def Peek_def)
next
  case nomain: False
  show ?thesis
  proof (cases "map_of (queueA1 c) k \<noteq> None")
    case True
    with nomain show ?thesis by (simp add: Put_def Peek_def)
  next
    case False
    with nomain have fresh: "k \<notin> keysOf c"
      by (auto simp: keysOf_def map_of_eq_None_iff)
    then have "k \<notin> keysOf (evictOne c)"
      using keysOf_evictOne [of c] by auto
    with fresh nomain False show ?thesis
      by (simp add: Put_def Let_def Peek_fresh_A1)
  qed
qed

lemma Peek_Remove_same: "Peek (Remove c k) k = None"
  by (simp add: Peek_None_iff keysOf_Remove)

lemma getOld_Update_delete:
  assumes "needDelete item"
  shows "getOldHotPeerStat (Update f item) (RegionID item) (StoreID item) = None"
  using assms
  by (auto simp: getOldHotPeerStat_def Update_def IsNeedDelete_def Let_def Peek_Remove_same
      split: option.splits)

lemma getOld_Update_put:
  assumes "\<not> needDelete item"
  shows "getOldHotPeerStat (Update f item) (RegionID item) (StoreID item) = Some item"
  using assms
  by (simp add: getOldHotPeerStat_def Update_def IsNeedDelete_def Let_def Peek_Put_same)

lemma kind_Update: "kind (Update f item) = kind f"
  by (simp add: Update_def Let_def split: option.splits)

lemma cached_after_Update:
  assumes "getOldHotPeerStat (Update f item) r s \<noteq> None"
  shows "(\<not> needDelete item \<and> s = StoreID item \<and> r = RegionID item)
       \<or> (getOldHotPeerStat f r s \<noteq> None \<and> \<not> (needDelete item \<and> s = StoreID item \<and> r = RegionID item))"
proof (cases "needDelete item")
  case True
  with assms show ?thesis
    unfolding getOld_cached_iff
    by (auto simp: Update_def IsNeedDelete_def Let_def keysOf_Remove
        split: option.splits if_splits)
next
  case False
  have put: "r \<in> keysOf (Put c (RegionID item) item) \<Longrightarrow> r = RegionID item \<or> r \<in> keysOf c" for c
    using keysOf_Put [of c "RegionID item" item] by auto
  have new: "keysOf (NewCache n) = {}" for n
    by (simp add: keysOf_def NewCache_def)
  from False assms show ?thesis
    unfolding getOld_cached_iff
    by (auto simp: Update_def IsNeedDelete_def Let_def new
        split: option.splits if_splits dest: put)
qed

lemma storesOfRegion_Update:
  "storesOfRegion (Update f item) r =
     (if r \<noteq> RegionID item then storesOfRegion f r
      else if needDelete item
        then (case storesOfRegion f r of None \<Rightarrow> None | Some ids \<Rightarrow> Some (ids - {StoreID item}))
        else Some (insert (StoreID item) (case storesOfRegion f r of None \<Rightarrow> {} | Some ids \<Rightarrow> ids)))"
  by (auto simp: Update_def IsNeedDelete_def Let_def split: option.splits)

lemma fwdConsistent_Update:
  assumes "fwdConsistent f"
  shows "fwdConsistent (Update f item)"
  unfolding fwdConsistent_def
proof (intro allI impI)
  fix s r
  assume c: "getOldHotPeerStat (Update f item) r s \<noteq> None"
  from cached_after_Update [OF c]
  show "\<exists>ids. storesOfRegion (Update f item) r = Some ids \<and> s \<in> ids"
  proof
    assume "\<not> needDelete item \<and> s = StoreID item \<and> r = RegionID item"
    then show ?thesis by (simp add: storesOfRegion_Update)
  next
    assume old: "getOldHotPeerStat f r s \<noteq> None
        \<and> \<not> (needDelete item \<and> s = StoreID item \<and> r = RegionID item)"
    with assms obtain ids where "storesOfRegion f r = Some ids" "s \<in> ids"
      by (auto simp: fwdConsistent_def)
    with old show ?thesis
      by (auto simp: storesOfRegion_Update)
  qed
qed

lemma fwdConsistent_New: "fwdConsistent (NewHotStoresStats k)"
  by (simp add: fwdConsistent_def NewHotStoresStats_def getOldHotPeerStat_def)

lemma fwdConsistent_foldl:
  "fwdConsistent f \<Longrightarrow> fwdConsistent (foldl Update f items)"
  by (induction items arbitrary: f) (simp_all add: fwdConsistent_Update)

lemma getBytesFlow_Update: "getBytesFlow (Update f item) region = getBytesFlow f region"
  by (simp add: getBytesFlow_def kind_Update)

lemma getKeysFlow_Update: "getKeysFlow (Update f item) region = getKeysFlow f region"
  by (simp add: getKeysFlow_def kind_Update)

lemma isRegionExpired_Update: "isRegionExpired (Update f item) region s = isRegionExpired f region s"
  by (simp add: isRegionExpired_def kind_Update)

lemma calcHotThreshold_Update: "calcHotThreshold (Update f item) stats s = calcHotThreshold f stats s"
  by (simp add: calcHotThreshold_def kind_Update)

subsection \<open>Rates and thresholds\<close>






subsection \<open>The candidate stores\<close>

lemma foldl_addPeerStore:
  "foldl (addPeerStore f region) S ps =
     S \<union> {peerStoreId p | p. p \<in> set ps \<and>
            (kind f = WriteFlow \<or> peerStoreId p = GetStoreId (GetLeader region))}"
proof (induction ps arbitrary: S)
  case Nil
  then show ?case by simp
next
  case (Cons p ps)
  have k: "kind f = ReadFlow \<or> kind f = WriteFlow" by (cases "kind f") auto
  show ?case
    unfolding foldl_Cons Cons.IH
    using k by (auto simp: addPeerStore_def GetStoreId_def)
qed

lemma getAllStoreIDs_eq:
  "getAllStoreIDs f region =
     (case storesOfRegion f (GetID region) of Some ids \<Rightarrow> ids | None \<Rightarrow> {})
     \<union> (case kind f of
          WriteFlow \<Rightarrow> peerStoreId ` set (GetPeers region)
        | ReadFlow \<Rightarrow> {s \<in> peerStoreId ` set (GetPeers region). s = GetStoreId (GetLeader region)})"
  by (cases "kind f") (auto simp: getAllStoreIDs_def foldl_addPeerStore)

lemma leaderless_read_expired:
  assumes "kind f = ReadFlow" and "GetLeader region = None" and "s \<noteq> 0"
  shows "isRegionExpired f region s"
  using assms by (auto simp: isRegionExpired_def GetStoreId_def)

lemma leaderless_read_stores:
  assumes "kind f = ReadFlow" and "GetLeader region = None"
      and "0 \<notin> getAllStoreIDs f region"
  shows "getAllStoreIDs f region =
           (case storesOfRegion f (GetID region) of Some ids \<Rightarrow> ids | None \<Rightarrow> {})"
  using assms unfolding getAllStoreIDs_eq by (auto simp: GetStoreId_def)

subsection \<open>The loop body and the loop\<close>

lemma checkStore_expired:
  assumes "isRegionExpired f region s"
  shows "\<exists>b k. checkStore e f region stats h s =
           Inr (Some (newHotPeerStat s (GetID region) (kind f) b k (now e) (GetVersion region)
                        True (GetStoreId (GetLeader region) = s)), h)
         \<and> (\<forall>old. getOldHotPeerStat f (GetID region) s = Some old \<longrightarrow>
               b = intervalRate e (getBytesFlow f region) (LastUpdateTime old)
             \<and> k = intervalRate e (getKeysFlow f region) (LastUpdateTime old))"
  using assms
  by (cases "getOldHotPeerStat f (GetID region) s")
     (simp_all add: checkStore_def Let_def intervalRate_def updateHotPeerStat_expired
        newHotPeerStat_def)


lemma checkStore_old:
  assumes "getOldHotPeerStat f (GetID region) s = Some old"
      and "\<not> isRegionExpired f region s"
      and "\<not> suppressed e (LastUpdateTime old)"
  shows "checkStore e f region stats h s =
           updateHotPeerStat h
             (newHotPeerStat s (GetID region) (kind f)
                (intervalRate e (getBytesFlow f region) (LastUpdateTime old))
                (intervalRate e (getKeysFlow f region) (LastUpdateTime old))
                (now e) (GetVersion region) False (GetStoreId (GetLeader region) = s))
             (Some old)
             (intervalRate e (getBytesFlow f region) (LastUpdateTime old))
             (calcHotThreshold f stats s)"
  using assms by (auto simp: checkStore_def Let_def suppressed_def intervalRate_def)


lemma cold_step:
  assumes cached: "getOldHotPeerStat f (GetID region) s = Some old"
      and win: "RollingBytesRate old = Some a"
      and live: "\<not> isRegionExpired f region s"
      and due: "\<not> suppressed e (LastUpdateTime old)"
      and cold: "intervalRate e (getBytesFlow f region) (LastUpdateTime old)
                   < calcHotThreshold f stats s"
  shows "\<exists>i h'. checkStore e f region stats h s = Inr (Some i, h')
           \<and> HotDegree i = HotDegree old - 1 \<and> AntiCount i = AntiCount old - 1
           \<and> needDelete i = (AntiCount old - 1 <s 0) \<and> \<not> isNew i
           \<and> RollingBytesRate i = Some a \<and> StoreID i = s \<and> RegionID i = GetID region
           \<and> LastUpdateTime i = now e
           \<and> cells h' a = Add (cells h a) (intervalRate e (getBytesFlow f region) (LastUpdateTime old))"
  unfolding checkStore_old [OF cached live due]
  by (subst updateHotPeerStat_old_cold [OF _ cold]) (simp_all add: win)

lemma checkStore_heap:
  assumes "checkStore e f region stats h s = Inr (r, h')"
  shows "nxt h \<le> nxt h' \<and>
         (\<forall>a. cells h' a \<noteq> cells h a \<longrightarrow>
            nxt h \<le> a \<or>
            (\<exists>old. getOldHotPeerStat f (GetID region) s = Some old
                 \<and> RollingBytesRate old = Some a \<and> \<not> isRegionExpired f region s))"
proof (cases "\<exists>b k. checkStore e f region stats h s =
    updateHotPeerStat h (newHotPeerStat s (GetID region) (kind f) b k (now e) (GetVersion region)
        (isRegionExpired f region s) (GetStoreId (GetLeader region) = s))
      (getOldHotPeerStat f (GetID region) s) b (calcHotThreshold f stats s)")
  case True
  then obtain b k where "updateHotPeerStat h
      (newHotPeerStat s (GetID region) (kind f) b k (now e) (GetVersion region)
        (isRegionExpired f region s) (GetStoreId (GetLeader region) = s))
      (getOldHotPeerStat f (GetID region) s) b (calcHotThreshold f stats s) = Inr (r, h')"
    using assms by auto
  from updateHotPeerStat_heap [OF this] show ?thesis by simp
next
  case False
  then have "checkStore e f region stats h s = Inr (None, h)"
    by (auto simp: checkStore_def Let_def split: option.splits if_splits)
  with assms show ?thesis by simp
qed

lemma checkLoop_all_expired:
  assumes "\<forall>s \<in> set ids. isRegionExpired f region s"
  shows "\<exists>items. checkLoop e f region stats ids (ret, h) = Inr (ret @ items, h)
           \<and> map StoreID items = ids \<and> (\<forall>i \<in> set items. needDelete i)"
  using assms
proof (induction ids arbitrary: ret)
  case Nil
  then show ?case by simp
next
  case (Cons s ids)
  then have gone: "isRegionExpired f region s" by simp
  from checkStore_expired [OF gone, of e stats h]
  obtain item where one: "checkStore e f region stats h s = Inr (Some item, h)"
    and it: "needDelete item" "StoreID item = s"
    by auto
  from Cons have "\<forall>s \<in> set ids. isRegionExpired f region s" by simp
  from Cons.IH [OF this, of "ret @ [item]"]
  obtain items where
    "checkLoop e f region stats ids (ret @ [item], h) = Inr ((ret @ [item]) @ items, h)"
    "map StoreID items = ids" "\<forall>i \<in> set items. needDelete i"
    by blast
  with one it show ?case
    by (intro exI [of _ "item # items"]) simp
qed

lemma checkLoop_heap:
  assumes "checkLoop e f region stats ids (ret, h) = Inr (ret', h')"
  shows "nxt h \<le> nxt h' \<and>
         (\<forall>a. cells h' a \<noteq> cells h a \<longrightarrow>
            nxt h \<le> a \<or>
            (\<exists>s \<in> set ids. \<exists>old. getOldHotPeerStat f (GetID region) s = Some old
                 \<and> RollingBytesRate old = Some a \<and> \<not> isRegionExpired f region s))"
  using assms
proof (induction ids arbitrary: ret h)
  case Nil
  then show ?case by simp
next
  case (Cons s ids)
  from Cons.prems obtain r h1 ret1 where
    one: "checkStore e f region stats h s = Inr (r, h1)"
    and rest: "checkLoop e f region stats ids (ret1, h1) = Inr (ret', h')"
    by (auto split: sum.splits option.splits)
  note a = checkStore_heap [OF one]
  note b = Cons.IH [OF rest]
  show ?case
  proof (intro conjI allI impI)
    show "nxt h \<le> nxt h'" using a b by simp
  next
    fix x
    assume ch: "cells h' x \<noteq> cells h x"
    show "nxt h \<le> x \<or>
            (\<exists>s \<in> set (s # ids). \<exists>old. getOldHotPeerStat f (GetID region) s = Some old
                 \<and> RollingBytesRate old = Some x \<and> \<not> isRegionExpired f region s)"
    proof (cases "cells h1 x = cells h x")
      case True
      with ch have "cells h' x \<noteq> cells h1 x" by simp
      with b have "nxt h1 \<le> x \<or>
            (\<exists>s \<in> set ids. \<exists>old. getOldHotPeerStat f (GetID region) s = Some old
                 \<and> RollingBytesRate old = Some x \<and> \<not> isRegionExpired f region s)"
        by blast
      with a show ?thesis by auto
    next
      case False
      with a show ?thesis by auto
    qed
  qed
qed

lemma CheckRegionFlow_heap:
  assumes "CheckRegionFlow e f region stats h = Inr (ret, h')"
  shows "\<forall>a. cells h' a \<noteq> cells h a \<longrightarrow>
            nxt h \<le> a \<or>
            (\<exists>s \<in> getAllStoreIDs f region. \<exists>old.
                 getOldHotPeerStat f (GetID region) s = Some old
                 \<and> RollingBytesRate old = Some a \<and> \<not> isRegionExpired f region s)"
  using checkLoop_heap [OF assms [unfolded CheckRegionFlow_def]] by simp


section \<open>Claims\<close>

text \<open>
  C1. Every call of \<^verbatim>\<open>updateHotPeerStat\<close> on a new stat that is not expired, built as
  \<^verbatim>\<open>CheckRegionFlow\<close> builds it: with no old stat and a rate below the threshold the
  result is \<^verbatim>\<open>nil\<close> and the store of windows is untouched; with no old stat and a rate at
  or above the threshold the returned stat has hot degree 0, anti count
  \<^verbatim>\<open>hotRegionAntiCount\<close> = 1, is new, is not to be deleted, and points to a window allocated
  by this call that holds the one sample; with an old stat and a rate at or above the
  threshold the returned stat has the old hot degree plus one (Go's \<^verbatim>\<open>int\<close> addition),
  anti count \<^verbatim>\<open>hotRegionAntiCount\<close>, is not new and is not to be deleted, shares the old
  stat's window, and that window has received the sample. (An old stat whose window
  pointer is \<^verbatim>\<open>nil\<close> makes the call panic; nothing is emitted then.)
\<close>
theorem C1_updateHotPeerStat_table:
  "(rate < thr \<longrightarrow>
      updateHotPeerStat h (newHotPeerStat s r k b ks t v False l) None rate thr = Inr (None, h))
    \<and> (thr \<le> rate \<longrightarrow>
         (\<exists>item h'. updateHotPeerStat h (newHotPeerStat s r k b ks t v False l) None rate thr
              = Inr (Some item, h')
            \<and> HotDegree item = 0 \<and> AntiCount item = hotRegionAntiCount
            \<and> hotRegionAntiCount = 1 \<and> isNew item \<and> \<not> needDelete item
            \<and> RollingBytesRate item = Some (nxt h) \<and> nxt h' = Suc (nxt h)
            \<and> cells h' (nxt h) = Add (NewRollingStats rollingWindowsSize) rate
            \<and> records (cells h' (nxt h)) = [rate]))
    \<and> (thr \<le> rate \<longrightarrow>
         (case RollingBytesRate old of
            None \<Rightarrow>
              updateHotPeerStat h (newHotPeerStat s r k b ks t v False l) (Some old) rate thr
                = Inl NilPointerDereference
          | Some a \<Rightarrow>
              (\<exists>item h'.
                 updateHotPeerStat h (newHotPeerStat s r k b ks t v False l) (Some old) rate thr
                   = Inr (Some item, h')
                 \<and> HotDegree item = HotDegree old + 1 \<and> AntiCount item = hotRegionAntiCount
                 \<and> \<not> isNew item \<and> \<not> needDelete item
                 \<and> RollingBytesRate item = Some a
                 \<and> cells h' a = Add (cells h a) rate)))"
proof -
  have nd: "\<not> needDelete (newHotPeerStat s r k b ks t v False l)"
    by (simp add: newHotPeerStat_def)
  show ?thesis
  proof (intro conjI impI)
    assume "rate < thr"
    then show "updateHotPeerStat h (newHotPeerStat s r k b ks t v False l) None rate thr
        = Inr (None, h)"
      by (simp add: updateHotPeerStat_no_old [OF nd])
  next
    assume "thr \<le> rate"
    then have "\<not> rate < thr" by simp
    then show "\<exists>item h'. updateHotPeerStat h (newHotPeerStat s r k b ks t v False l) None rate thr
              = Inr (Some item, h')
            \<and> HotDegree item = 0 \<and> AntiCount item = hotRegionAntiCount
            \<and> hotRegionAntiCount = 1 \<and> isNew item \<and> \<not> needDelete item
            \<and> RollingBytesRate item = Some (nxt h) \<and> nxt h' = Suc (nxt h)
            \<and> cells h' (nxt h) = Add (NewRollingStats rollingWindowsSize) rate
            \<and> records (cells h' (nxt h)) = [rate]"
      by (simp add: updateHotPeerStat_no_old [OF nd] hotRegionAntiCount_def Add_def
            NewRollingStats_def rollingWindowsSize_def)
  next
    assume hot: "thr \<le> rate"
    show "case RollingBytesRate old of
            None \<Rightarrow>
              updateHotPeerStat h (newHotPeerStat s r k b ks t v False l) (Some old) rate thr
                = Inl NilPointerDereference
          | Some a \<Rightarrow>
              (\<exists>item h'.
                 updateHotPeerStat h (newHotPeerStat s r k b ks t v False l) (Some old) rate thr
                   = Inr (Some item, h')
                 \<and> HotDegree item = HotDegree old + 1 \<and> AntiCount item = hotRegionAntiCount
                 \<and> \<not> isNew item \<and> \<not> needDelete item
                 \<and> RollingBytesRate item = Some a
                 \<and> cells h' a = Add (cells h a) rate)"
      by (simp add: updateHotPeerStat_old_hot [OF nd hot] split: option.splits)
  qed
qed

theorem C1_updateHotPeerStat_table_witness:
  "(100::u64) < 16384 \<and>
   updateHotPeerStat heap0 (newHotPeerStat 1 1 WriteFlow 100 1 0 1 False True) None 100 16384
     = Inr (None, heap0)
   \<and> (16384::u64) \<le> 524288
   \<and> (\<exists>item h'. updateHotPeerStat heap0 (newHotPeerStat 1 1 WriteFlow 524288 500 0 1 False True)
          None 524288 16384 = Inr (Some item, h')
        \<and> HotDegree item = 0 \<and> AntiCount item = 1 \<and> isNew item \<and> \<not> needDelete item
        \<and> records (cells h' 0) = [524288])
   \<and> (\<exists>item h'. updateHotPeerStat heap0 (newHotPeerStat 1 1 WriteFlow 524288 500 0 1 False True)
          (Some ((newHotPeerStat 1 1 WriteFlow 524288 500 0 1 False True)
                   \<lparr>HotDegree := 7, RollingBytesRate := Some 0\<rparr>))
          524288 16384 = Inr (Some item, h')
        \<and> HotDegree item = 8 \<and> AntiCount item = 1 \<and> \<not> isNew item \<and> \<not> needDelete item)"
proof -
  have lt: "(100::u64) < 16384" by (simp add: word_less_nat_alt)
  have le: "(16384::u64) \<le> 524288" by (simp add: word_le_nat_alt)
  note cold = C1_updateHotPeerStat_table [of 100 16384 heap0 1 1 WriteFlow 100 1 0 1 True, THEN conjunct1, rule_format, OF lt]
  note hot = C1_updateHotPeerStat_table [of 524288 16384 heap0 1 1 WriteFlow 524288 500 0 1 True
      "(newHotPeerStat 1 1 WriteFlow 524288 500 0 1 False True)\<lparr>HotDegree := 7, RollingBytesRate := Some 0\<rparr>"]
  note hot1 = hot [THEN conjunct2, THEN conjunct1, rule_format, OF le]
  note hot2 = hot [THEN conjunct2, THEN conjunct2, rule_format, OF le]
  show ?thesis
    using lt le cold hot1 hot2
    by (auto simp: heap0_def hotRegionAntiCount_def)
qed

text \<open>
  C2, as the code has it. Let a stat with hot degree H and a window be cached for a store
  whose peer is not expired, and let a heartbeat that is not suppressed compute a rate
  below the threshold. The loop body emits a stat with hot degree H - 1 and the old anti
  count minus one; it is not to be deleted when the old anti count is positive. When the
  old anti count is \<^verbatim>\<open>hotRegionAntiCount\<close> (= 1), the emitted stat has anti count 0, and
  after it is applied by \<^verbatim>\<open>Update\<close> the next such cold heartbeat, the second, emits the
  tombstone: hot degree H - 2, anti count -1, to be deleted; after that is applied the
  pair is no longer cached. So the tombstone comes with cold heartbeat number
  \<^verbatim>\<open>hotRegionAntiCount\<close> + 1 whatever H is, not with number H + \<^verbatim>\<open>hotRegionAntiCount\<close> + 1.
\<close>
theorem C2_cooling_tombstone_on_second_cold_heartbeat:
  assumes cached: "getOldHotPeerStat f (GetID region1) s = Some old"
      and win: "RollingBytesRate old = Some a"
      and same: "GetID region2 = GetID region1"
      and live1: "\<not> isRegionExpired f region1 s"
      and live2: "\<not> isRegionExpired f region2 s"
      and due1: "\<not> suppressed e1 (LastUpdateTime old)"
      and cold1: "intervalRate e1 (getBytesFlow f region1) (LastUpdateTime old)
                    < calcHotThreshold f stats1 s"
      and due2: "\<not> suppressed e2 (now e1)"
      and cold2: "intervalRate e2 (getBytesFlow f region2) (now e1) < calcHotThreshold f stats2 s"
  shows "\<exists>i1 h1. checkStore e1 f region1 stats1 h s = Inr (Some i1, h1)
           \<and> HotDegree i1 = HotDegree old - 1 \<and> AntiCount i1 = AntiCount old - 1
           \<and> (0 <s AntiCount old \<longrightarrow> \<not> needDelete i1)
           \<and> (AntiCount old = hotRegionAntiCount \<longrightarrow>
                AntiCount i1 = 0 \<and> \<not> needDelete i1 \<and>
                (\<exists>i2 h2. checkStore e2 (Update f i1) region2 stats2 h1 s = Inr (Some i2, h2)
                   \<and> HotDegree i2 = HotDegree old - 2 \<and> AntiCount i2 = - 1 \<and> needDelete i2
                   \<and> getOldHotPeerStat (Update (Update f i1) i2) (GetID region1) s = None))"
proof -
  from cold_step [OF cached win live1 due1 cold1, of h]
  obtain i1 h1 where
    run1: "checkStore e1 f region1 stats1 h s = Inr (Some i1, h1)"
    and deg1: "HotDegree i1 = HotDegree old - 1"
    and anti1: "AntiCount i1 = AntiCount old - 1"
    and del1: "needDelete i1 = (AntiCount old - 1 <s 0)"
    and win1: "RollingBytesRate i1 = Some a"
    and key1: "StoreID i1 = s" "RegionID i1 = GetID region1"
    and time1: "LastUpdateTime i1 = now e1"
    by blast
  have grace: "\<not> needDelete i1" if "0 <s AntiCount old"
    using sless_pred [OF that] del1 by simp
  have chain: "AntiCount i1 = 0 \<and> \<not> needDelete i1 \<and>
      (\<exists>i2 h2. checkStore e2 (Update f i1) region2 stats2 h1 s = Inr (Some i2, h2)
         \<and> HotDegree i2 = HotDegree old - 2 \<and> AntiCount i2 = - 1 \<and> needDelete i2
         \<and> getOldHotPeerStat (Update (Update f i1) i2) (GetID region1) s = None)"
    if one: "AntiCount old = hotRegionAntiCount"
  proof -
    from one have a0: "AntiCount i1 = 0" and nd1: "\<not> needDelete i1"
      using anti1 del1 by (simp_all add: hotRegionAntiCount_def word_sless_alt)
    let ?f1 = "Update f i1"
    have cached1: "getOldHotPeerStat ?f1 (GetID region2) s = Some i1"
      using getOld_Update_put [OF nd1, of f] key1 same by simp
    have live: "\<not> isRegionExpired ?f1 region2 s"
      using live2 by (simp add: isRegionExpired_Update)
    have due: "\<not> suppressed e2 (LastUpdateTime i1)"
      using due2 time1 by simp
    have cold: "intervalRate e2 (getBytesFlow ?f1 region2) (LastUpdateTime i1)
        < calcHotThreshold ?f1 stats2 s"
      using cold2 time1 by (simp add: getBytesFlow_Update calcHotThreshold_Update)
    from cold_step [OF cached1 win1 live due cold, of h1]
    obtain i2 h2 where
      run2: "checkStore e2 ?f1 region2 stats2 h1 s = Inr (Some i2, h2)"
      and deg2: "HotDegree i2 = HotDegree i1 - 1"
      and anti2: "AntiCount i2 = AntiCount i1 - 1"
      and del2: "needDelete i2 = (AntiCount i1 - 1 <s 0)"
      and key2: "StoreID i2 = s" "RegionID i2 = GetID region2"
      by blast
    have nd2: "needDelete i2" using del2 a0 by (simp add: word_sless_alt)
    have gone: "getOldHotPeerStat (Update ?f1 i2) (GetID region1) s = None"
      using getOld_Update_delete [OF nd2, of ?f1] key2 same by simp
    from run2 deg2 deg1 anti2 a0 nd2 gone nd1 show ?thesis by simp
  qed
  from run1 deg1 anti1 grace chain show ?thesis by blast
qed

theorem C2_cooling_tombstone_on_second_cold_heartbeat_witness:
  "getOldHotPeerStat cache2 (GetID coldRegion) 1 = Some item2
   \<and> RollingBytesRate item2 = Some 0
   \<and> \<not> isRegionExpired cache2 coldRegion 1
   \<and> \<not> suppressed (envAt 20) (LastUpdateTime item2)
   \<and> intervalRate (envAt 20) (getBytesFlow cache2 coldRegion) (LastUpdateTime item2)
        < calcHotThreshold cache2 noStats 1
   \<and> \<not> suppressed (envAt 30) (now (envAt 20))
   \<and> intervalRate (envAt 30) (getBytesFlow cache2 coldRegion) (now (envAt 20))
        < calcHotThreshold cache2 noStats 1
   \<and> 0 <s AntiCount item2 \<and> AntiCount item2 = hotRegionAntiCount
   \<and> (\<exists>i1 h1 i2 h2.
         checkStore (envAt 20) cache2 coldRegion noStats heap2 1 = Inr (Some i1, h1)
         \<and> HotDegree i1 = 0 \<and> AntiCount i1 = 0 \<and> \<not> needDelete i1
         \<and> checkStore (envAt 30) (Update cache2 i1) coldRegion noStats h1 1 = Inr (Some i2, h2)
         \<and> HotDegree i2 = - 1 \<and> AntiCount i2 = - 1 \<and> needDelete i2
         \<and> getOldHotPeerStat (Update (Update cache2 i1) i2) (GetID coldRegion) 1 = None)"
proof -
  have a: "getOldHotPeerStat cache2 (GetID coldRegion) 1 = Some item2"
    by (simp add: eval_defs)
  have b: "RollingBytesRate item2 = Some 0" by (simp add: item2_def)
  have c: "\<not> isRegionExpired cache2 coldRegion 1" by (simp add: eval_defs)
  have d: "\<not> suppressed (envAt 20) (LastUpdateTime item2)" by (simp add: eval_defs)
  have e: "intervalRate (envAt 20) (getBytesFlow cache2 coldRegion) (LastUpdateTime item2)
        < calcHotThreshold cache2 noStats 1"
    by (simp add: eval_defs)
  have f: "\<not> suppressed (envAt 30) (now (envAt 20))" by (simp add: eval_defs)
  have g: "intervalRate (envAt 30) (getBytesFlow cache2 coldRegion) (now (envAt 20))
        < calcHotThreshold cache2 noStats 1"
    by (simp add: eval_defs)
  have k: "0 <s AntiCount item2" "AntiCount item2 = hotRegionAntiCount"
    by (simp_all add: item2_def hotRegionAntiCount_def word_sless_alt)
  have deg: "HotDegree item2 = 1" by (simp add: item2_def)
  from C2_cooling_tombstone_on_second_cold_heartbeat [OF a b refl c c d e f g, where h = heap2] k deg
  have "\<exists>i1 h1 i2 h2.
         checkStore (envAt 20) cache2 coldRegion noStats heap2 1 = Inr (Some i1, h1)
         \<and> HotDegree i1 = 0 \<and> AntiCount i1 = 0 \<and> \<not> needDelete i1
         \<and> checkStore (envAt 30) (Update cache2 i1) coldRegion noStats h1 1 = Inr (Some i2, h2)
         \<and> HotDegree i2 = - 1 \<and> AntiCount i2 = - 1 \<and> needDelete i2
         \<and> getOldHotPeerStat (Update (Update cache2 i1) i2) (GetID coldRegion) 1 = None"
    by (simp add: hotRegionAntiCount_def) blast
  with a b c d e f g k show ?thesis by blast
qed

text \<open>
  C2 as stated fails for H = 1. From the empty cache two hot heartbeats (at 0 s and 10 s)
  leave the stat \<open>item2\<close> with hot degree 1 and anti count 1. The first cold heartbeat
  (20 s) emits hot degree 0 and anti count 0; the second (30 s) already emits the
  tombstone; the third (40 s), the one numbered H + \<^verbatim>\<open>hotRegionAntiCount\<close> + 1, finds no old
  stat and emits nothing.
\<close>
theorem C2_third_cold_heartbeat_counterexample:
  "HotDegree item2 = 1 \<and> AntiCount item2 = hotRegionAntiCount
   \<and> CheckRegionFlow (envAt 0) (NewHotStoresStats WriteFlow) hotRegion noStats heap0
       = Inr ([item1], heap1)
   \<and> CheckRegionFlow (envAt 10) (Update (NewHotStoresStats WriteFlow) item1) hotRegion noStats heap1
       = Inr ([item2], heap2)
   \<and> CheckRegionFlow (envAt 20) cache2 coldRegion noStats heap2 = Inr ([item3], heap3)
   \<and> CheckRegionFlow (envAt 30) (Update cache2 item3) coldRegion noStats heap3
       = Inr ([item4], heap4)
   \<and> needDelete item4
   \<and> CheckRegionFlow (envAt 40) (Update (Update cache2 item3) item4) coldRegion noStats heap4
       = Inr ([], heap4)"
  by (simp add: eval_defs item3_def item4_def heap3_def heap4_def)

text \<open>
  C3, as the code has it. When the new stat is expired, whether or not an old stat exists,
  the loop body returns the new stat as it was built: to be deleted, not new, hot degree
  0, anti count 0 and no rolling window (\<^verbatim>\<open>nil\<close>); nothing of the old stat is inherited,
  and the store of windows is returned unchanged, so no window receives the sample.
\<close>
theorem C3_expired_emits_bare_tombstone:
  assumes "isRegionExpired f region s"
  shows "\<exists>item. checkStore e f region stats h s = Inr (Some item, h)
           \<and> needDelete item \<and> \<not> isNew item \<and> HotDegree item = 0 \<and> AntiCount item = 0
           \<and> RollingBytesRate item = None
           \<and> StoreID item = s \<and> RegionID item = GetID region"
  using checkStore_expired [OF assms, of e stats h] by auto

theorem C3_expired_emits_bare_tombstone_witness:
  "isRegionExpired cache2 movedRegion 1
   \<and> getOldHotPeerStat cache2 (GetID movedRegion) 1 = Some item2
   \<and> (\<exists>item. checkStore (envAt 20) cache2 movedRegion noStats heap2 1 = Inr (Some item, heap2)
         \<and> needDelete item \<and> \<not> isNew item \<and> HotDegree item = 0 \<and> AntiCount item = 0
         \<and> RollingBytesRate item = None \<and> StoreID item = 1 \<and> RegionID item = 1)"
proof -
  have a: "isRegionExpired cache2 movedRegion 1" by (simp add: eval_defs)
  have b: "getOldHotPeerStat cache2 (GetID movedRegion) 1 = Some item2" by (simp add: eval_defs)
  have c: "GetID movedRegion = 1" by (simp add: eval_defs)
  from C3_expired_emits_bare_tombstone [OF a, of "envAt 20" noStats heap2] a b c show ?thesis by simp
qed

text \<open>
  C3 as stated fails. The cached stat \<open>item2\<close> of store 1 has hot degree 1, anti count 1
  and the window at address 0. When the region's only peer has moved to store 2, the
  tombstone for store 1 has hot degree 0, anti count 0 and no window, and the window at
  address 0 still holds its two samples.
\<close>
theorem C3_tombstone_inherits_nothing_counterexample:
  "getOldHotPeerStat cache2 (GetID movedRegion) 1 = Some item2
   \<and> isRegionExpired cache2 movedRegion 1
   \<and> checkStore (envAt 20) cache2 movedRegion noStats heap2 1 = Inr (Some tombstone1, heap2)
   \<and> HotDegree item2 = 1 \<and> HotDegree tombstone1 = 0
   \<and> AntiCount item2 = 1 \<and> AntiCount tombstone1 = 0
   \<and> RollingBytesRate item2 = Some 0 \<and> RollingBytesRate tombstone1 = None
   \<and> HotDegree tombstone1 \<noteq> HotDegree item2 \<and> AntiCount tombstone1 \<noteq> AntiCount item2
   \<and> RollingBytesRate tombstone1 \<noteq> RollingBytesRate item2
   \<and> records (cells heap2 0) = [524288, 3145728]"
  by (simp add: eval_defs tombstone1_def)




text \<open>
  C5, as the code has it. For a region with no leader the generated getter gives the leader's
  store as 0. A check of the read cache, when store 0 is neither recorded for the region nor
  the store of one of its peers, leaves both flow caches and the store of windows as they
  were and returns one stat to be deleted for each store recorded for the region in
  \<^verbatim>\<open>storesOfRegion\<close>; the returned list is empty exactly when no store is recorded.
\<close>
theorem C5_leaderless_read_check:
  assumes rd: "kind (readFlow w) = ReadFlow"
      and nl: "GetLeader region = None"
      and nz: "0 \<notin> getAllStoreIDs (readFlow w) region"
  shows "\<exists>ret. CheckRead e w region stats = Inr (ret, w)
           \<and> map StoreID ret =
               sorted_list_of_set
                 (case storesOfRegion (readFlow w) (GetID region) of
                    Some ids \<Rightarrow> ids | None \<Rightarrow> {})
           \<and> (\<forall>i \<in> set ret. needDelete i)
           \<and> ((ret = []) =
                ((case storesOfRegion (readFlow w) (GetID region) of
                    Some ids \<Rightarrow> ids | None \<Rightarrow> {}) = {}))"
proof -
  let ?old = "case storesOfRegion (readFlow w) (GetID region) of Some ids \<Rightarrow> ids | None \<Rightarrow> {}"
  have ids: "getAllStoreIDs (readFlow w) region = ?old"
    by (rule leaderless_read_stores [OF rd nl nz])
  have "\<forall>s \<in> set (sorted_list_of_set ?old). isRegionExpired (readFlow w) region s"
    using nz ids leaderless_read_expired [OF rd nl] by (metis set_sorted_list_of_set finite)
  from checkLoop_all_expired [OF this, of e stats "[]" "windows w"]
  obtain items where
    run: "checkLoop e (readFlow w) region stats (sorted_list_of_set ?old) ([], windows w)
            = Inr (items, windows w)"
    and st: "map StoreID items = sorted_list_of_set ?old"
    and del: "\<forall>i \<in> set items. needDelete i"
    by auto
  have "(items = []) = (sorted_list_of_set ?old = [])"
    using st by (metis map_is_Nil_conv)
  then have emp: "(items = []) = (?old = {})"
    by simp
  from run have "CheckRead e w region stats = Inr (items, w)"
    by (simp add: CheckRead_def CheckRegionFlow_def ids)
  with st del emp show ?thesis by blast
qed

theorem C5_leaderless_read_check_witness:
  "kind (readFlow hotSpotRead) = ReadFlow
   \<and> GetLeader (readRegion None) = None
   \<and> 0 \<notin> getAllStoreIDs (readFlow hotSpotRead) (readRegion None)
   \<and> (\<exists>ret. CheckRead (envAt 60) hotSpotRead (readRegion None) noStats = Inr (ret, hotSpotRead)
         \<and> map StoreID ret = [4] \<and> list_all needDelete ret \<and> ret \<noteq> [])"
proof -
  have a: "kind (readFlow hotSpotRead) = ReadFlow" by (simp add: eval_defs readRegion_def readItem4_def readTombstone4_def heapRead_def hotSpotRead_def)
  have b: "GetLeader (readRegion None) = None" by (simp add: eval_defs readRegion_def readItem4_def readTombstone4_def heapRead_def hotSpotRead_def)
  have c: "0 \<notin> getAllStoreIDs (readFlow hotSpotRead) (readRegion None)"
    by (simp add: eval_defs readRegion_def readItem4_def readTombstone4_def heapRead_def hotSpotRead_def)
  have d: "(case storesOfRegion (readFlow hotSpotRead) (GetID (readRegion None)) of
              Some ids \<Rightarrow> ids | None \<Rightarrow> {}) = {4}"
    by (simp add: eval_defs readRegion_def readItem4_def readTombstone4_def heapRead_def hotSpotRead_def)
  from C5_leaderless_read_check [OF a b c, of "envAt 60" noStats]
  have "\<exists>ret. CheckRead (envAt 60) hotSpotRead (readRegion None) noStats = Inr (ret, hotSpotRead)
         \<and> map StoreID ret = [4] \<and> list_all needDelete ret \<and> ret \<noteq> []"
    unfolding d by (auto simp: list_all_iff)
  with a b c show ?thesis by blast
qed

text \<open>
  C5 as stated fails. A read check of region 2 led from store 4 returns \<open>readItem4\<close>; with
  it applied, \<^verbatim>\<open>storesOfRegion\<close> records store 4. A read check of the same region without a
  leader then returns a tombstone for store 4, not the empty list.
\<close>
theorem C5_leaderless_read_emits_tombstone_counterexample:
  "GetLeader (readRegion None) = None
   \<and> storesOfRegion (readFlow hotSpotRead) (GetID (readRegion None)) = Some {4}
   \<and> CheckRead (envAt 0) \<lparr>writeFlow = NewHotStoresStats WriteFlow,
         readFlow = NewHotStoresStats ReadFlow, windows = heap0\<rparr> (readRegion (Some (peerOn 4))) noStats
       = Inr ([readItem4], \<lparr>writeFlow = NewHotStoresStats WriteFlow,
         readFlow = NewHotStoresStats ReadFlow, windows = heapRead\<rparr>)
   \<and> CheckRead (envAt 60) hotSpotRead (readRegion None) noStats
       = Inr ([readTombstone4], hotSpotRead)
   \<and> needDelete readTombstone4
   \<and> CheckRead (envAt 60) hotSpotRead (readRegion None) noStats \<noteq> Inr ([], hotSpotRead)"
  by (simp add: eval_defs readRegion_def readItem4_def readTombstone4_def heapRead_def hotSpotRead_def)





text \<open>
  C8. The stores \<^verbatim>\<open>CheckRegionFlow\<close> visits are the stores recorded for the region in
  \<^verbatim>\<open>storesOfRegion\<close> together with the stores of the region's current peers, all of them
  for the write cache and only those equal to the leader's store (as the getter reads it)
  for the read cache; each is visited once. So a store recorded for the region is visited
  whatever the current peers are.
\<close>
theorem C8_visited_stores:
  "getAllStoreIDs f region =
     (case storesOfRegion f (GetID region) of Some ids \<Rightarrow> ids | None \<Rightarrow> {})
     \<union> (case kind f of
          WriteFlow \<Rightarrow> peerStoreId ` set (GetPeers region)
        | ReadFlow \<Rightarrow> {s \<in> peerStoreId ` set (GetPeers region). s = GetStoreId (GetLeader region)})
   \<and> CheckRegionFlow e f region stats h =
       checkLoop e f region stats (sorted_list_of_set (getAllStoreIDs f region)) ([], h)
   \<and> set (sorted_list_of_set (getAllStoreIDs f region)) = getAllStoreIDs f region
   \<and> distinct (sorted_list_of_set (getAllStoreIDs f region))
   \<and> (\<forall>ids s. storesOfRegion f (GetID region) = Some ids \<and> s \<in> ids
        \<longrightarrow> s \<in> set (sorted_list_of_set (getAllStoreIDs f region)))"
  by (auto simp: getAllStoreIDs_eq CheckRegionFlow_def)

theorem C8_visited_stores_witness:
  "storesOfRegion cache2 (GetID movedRegion) = Some {1}
   \<and> GetStorePeer movedRegion 1 = None
   \<and> getAllStoreIDs cache2 movedRegion = {1, 2}
   \<and> 1 \<in> set (sorted_list_of_set (getAllStoreIDs cache2 movedRegion))
   \<and> getAllStoreIDs (readFlow hotSpotRead) (readRegion (Some (peerOn 5))) = {4, 5}"
proof -
  have a: "storesOfRegion cache2 (GetID movedRegion) = Some {1}" by (simp add: eval_defs readRegion_def readItem4_def heapRead_def hotSpotRead_def)
  have b: "GetStorePeer movedRegion 1 = None" by (simp add: eval_defs readRegion_def readItem4_def heapRead_def hotSpotRead_def)
  have k: "kind cache2 = WriteFlow" "kind (readFlow hotSpotRead) = ReadFlow"
    by (simp_all add: eval_defs readRegion_def readItem4_def heapRead_def hotSpotRead_def)
  have p: "peerStoreId ` set (GetPeers movedRegion) = {2}"
    "peerStoreId ` set (GetPeers (readRegion (Some (peerOn 5)))) = {4, 5, 6}"
    "GetStoreId (GetLeader (readRegion (Some (peerOn 5)))) = 5"
    "storesOfRegion (readFlow hotSpotRead) (GetID (readRegion (Some (peerOn 5)))) = Some {4}"
    by (simp_all add: eval_defs readRegion_def readItem4_def heapRead_def hotSpotRead_def)
  note w = C8_visited_stores [of cache2 movedRegion "envAt 20" noStats heap2]
  note r = C8_visited_stores [of "readFlow hotSpotRead" "readRegion (Some (peerOn 5))" "envAt 20" noStats heapRead]
  from w a k p have c: "getAllStoreIDs cache2 movedRegion = {1, 2}" by auto
  from w a have d: "1 \<in> set (sorted_list_of_set (getAllStoreIDs cache2 movedRegion))" by blast
  from r k p have e: "getAllStoreIDs (readFlow hotSpotRead) (readRegion (Some (peerOn 5))) = {4, 5}"
    by (auto simp: word_le_nat_alt)
  from a b c d e show ?thesis by blast
qed

text \<open>
  C9. Every cache reached from the empty one by any sequence of \<^verbatim>\<open>Update\<close> calls satisfies
  the forward inclusion: when the peer store of a store holds a region, the store is among
  the stores recorded for that region. Each \<^verbatim>\<open>Update\<close> preserves the inclusion: an item
  that is not to be deleted is put into the peer store of its store and its store is
  recorded for its region; an item to be deleted is removed from the peer store and its
  store is no longer recorded for its region.
\<close>
theorem C9_forward_consistency:
  "fwdConsistent (foldl Update (NewHotStoresStats k) items)
   \<and> (fwdConsistent f \<longrightarrow> fwdConsistent (Update f item))
   \<and> (\<not> needDelete item \<longrightarrow>
        getOldHotPeerStat (Update f item) (RegionID item) (StoreID item) = Some item
        \<and> (\<exists>ids. storesOfRegion (Update f item) (RegionID item) = Some ids
               \<and> StoreID item \<in> ids))
   \<and> (needDelete item \<longrightarrow>
        getOldHotPeerStat (Update f item) (RegionID item) (StoreID item) = None
        \<and> (\<forall>ids. storesOfRegion (Update f item) (RegionID item) = Some ids
               \<longrightarrow> StoreID item \<notin> ids))"
proof (intro conjI impI)
  show "fwdConsistent (foldl Update (NewHotStoresStats k) items)"
    by (rule fwdConsistent_foldl [OF fwdConsistent_New])
next
  assume "fwdConsistent f"
  then show "fwdConsistent (Update f item)" by (rule fwdConsistent_Update)
next
  assume "\<not> needDelete item"
  then show "getOldHotPeerStat (Update f item) (RegionID item) (StoreID item) = Some item"
    by (rule getOld_Update_put)
next
  assume "\<not> needDelete item"
  then show "\<exists>ids. storesOfRegion (Update f item) (RegionID item) = Some ids
               \<and> StoreID item \<in> ids"
    by (simp add: storesOfRegion_Update)
next
  assume "needDelete item"
  then show "getOldHotPeerStat (Update f item) (RegionID item) (StoreID item) = None"
    by (rule getOld_Update_delete)
next
  assume "needDelete item"
  then show "\<forall>ids. storesOfRegion (Update f item) (RegionID item) = Some ids
               \<longrightarrow> StoreID item \<notin> ids"
    by (auto simp: storesOfRegion_Update split: option.splits)
qed

theorem C9_forward_consistency_witness:
  "getOldHotPeerStat (foldl Update (NewHotStoresStats WriteFlow) [item1, item2]) 1 1 = Some item2
   \<and> storesOfRegion (foldl Update (NewHotStoresStats WriteFlow) [item1, item2]) 1 = Some {1}
   \<and> (\<exists>ids. storesOfRegion (foldl Update (NewHotStoresStats WriteFlow) [item1, item2]) 1 = Some ids
          \<and> 1 \<in> ids)
   \<and> fwdConsistent cache2 \<and> fwdConsistent (Update cache2 item3)
   \<and> \<not> needDelete item3
   \<and> getOldHotPeerStat (Update cache2 item3) 1 1 = Some item3
   \<and> needDelete item4
   \<and> getOldHotPeerStat (Update (Update cache2 item3) item4) 1 1 = None
   \<and> storesOfRegion (Update (Update cache2 item3) item4) 1 = Some {}"
proof -
  have a: "getOldHotPeerStat (foldl Update (NewHotStoresStats WriteFlow) [item1, item2]) 1 1
      = Some item2"
    by (simp add: eval_defs item3_def item4_def)
  have b: "storesOfRegion (foldl Update (NewHotStoresStats WriteFlow) [item1, item2]) 1 = Some {1}"
    by (simp add: eval_defs item3_def item4_def)
  have c: "cache2 = foldl Update (NewHotStoresStats WriteFlow) [item1, item2]"
    by (simp add: cache2_def cache1_def)
  have d: "\<not> needDelete item3" "needDelete item4"
    "RegionID item3 = 1" "StoreID item3 = 1" "RegionID item4 = 1" "StoreID item4 = 1"
    by (simp_all add: item3_def item4_def)
  have e: "storesOfRegion (Update (Update cache2 item3) item4) 1 = Some {}"
    by (simp add: eval_defs item3_def item4_def)
  note t = C9_forward_consistency [of WriteFlow "[item1, item2]" cache2 item3]
  note u = C9_forward_consistency [of WriteFlow "[item1, item2]" "Update cache2 item3" item4]
  from t have inv: "fwdConsistent (foldl Update (NewHotStoresStats WriteFlow) [item1, item2])"
    by blast
  from inv a
  have f: "\<exists>ids. storesOfRegion (foldl Update (NewHotStoresStats WriteFlow) [item1, item2]) 1 = Some ids
          \<and> 1 \<in> ids"
    unfolding fwdConsistent_def by (metis option.distinct(1))
  from inv c have g: "fwdConsistent cache2" by simp
  from t g have h: "fwdConsistent (Update cache2 item3)" by blast
  from t d have i: "getOldHotPeerStat (Update cache2 item3) 1 1 = Some item3" by auto
  from u d have j: "getOldHotPeerStat (Update (Update cache2 item3) item4) 1 1 = None" by auto
  from a b d e f g h i j show ?thesis by blast
qed

text \<open>
  C10, as the code has it. A check (\<^verbatim>\<open>CheckWrite\<close>, \<^verbatim>\<open>CheckRead\<close>) leaves both flow caches,
  that is \<^verbatim>\<open>peersOfStore\<close>, \<^verbatim>\<open>storesOfRegion\<close> and every cached stat, as they were. In the
  store of windows the only windows that differ after the call are windows the call
  allocated and the windows of cached old stats of visited stores whose peer is not
  expired: such a window is shared with the candidate and receives the sample during
  the check.
\<close>
theorem C10_check_frame:
  "(CheckWrite e w region stats = Inr (ret, w') \<longrightarrow>
      writeFlow w' = writeFlow w \<and> readFlow w' = readFlow w
      \<and> (\<forall>a. cells (windows w') a \<noteq> cells (windows w) a \<longrightarrow>
            nxt (windows w) \<le> a \<or>
            (\<exists>s \<in> getAllStoreIDs (writeFlow w) region. \<exists>old.
                 getOldHotPeerStat (writeFlow w) (GetID region) s = Some old
                 \<and> RollingBytesRate old = Some a
                 \<and> \<not> isRegionExpired (writeFlow w) region s)))
   \<and> (CheckRead e w region stats = Inr (ret, w') \<longrightarrow>
      writeFlow w' = writeFlow w \<and> readFlow w' = readFlow w
      \<and> (\<forall>a. cells (windows w') a \<noteq> cells (windows w) a \<longrightarrow>
            nxt (windows w) \<le> a \<or>
            (\<exists>s \<in> getAllStoreIDs (readFlow w) region. \<exists>old.
                 getOldHotPeerStat (readFlow w) (GetID region) s = Some old
                 \<and> RollingBytesRate old = Some a
                 \<and> \<not> isRegionExpired (readFlow w) region s)))"
proof (intro conjI impI)
  assume "CheckWrite e w region stats = Inr (ret, w')"
  then obtain h' where
    run: "CheckRegionFlow e (writeFlow w) region stats (windows w) = Inr (ret, h')"
    and w': "w' = w\<lparr>windows := h'\<rparr>"
    by (auto simp: CheckWrite_def split: sum.splits)
  from w' show "writeFlow w' = writeFlow w" "readFlow w' = readFlow w" by simp_all
  from CheckRegionFlow_heap [OF run] w'
  show "\<forall>a. cells (windows w') a \<noteq> cells (windows w) a \<longrightarrow>
            nxt (windows w) \<le> a \<or>
            (\<exists>s \<in> getAllStoreIDs (writeFlow w) region. \<exists>old.
                 getOldHotPeerStat (writeFlow w) (GetID region) s = Some old
                 \<and> RollingBytesRate old = Some a
                 \<and> \<not> isRegionExpired (writeFlow w) region s)"
    by simp
next
  assume "CheckRead e w region stats = Inr (ret, w')"
  then obtain h' where
    run: "CheckRegionFlow e (readFlow w) region stats (windows w) = Inr (ret, h')"
    and w': "w' = w\<lparr>windows := h'\<rparr>"
    by (auto simp: CheckRead_def split: sum.splits)
  from w' show "writeFlow w' = writeFlow w" "readFlow w' = readFlow w" by simp_all
  from CheckRegionFlow_heap [OF run] w'
  show "\<forall>a. cells (windows w') a \<noteq> cells (windows w) a \<longrightarrow>
            nxt (windows w) \<le> a \<or>
            (\<exists>s \<in> getAllStoreIDs (readFlow w) region. \<exists>old.
                 getOldHotPeerStat (readFlow w) (GetID region) s = Some old
                 \<and> RollingBytesRate old = Some a
                 \<and> \<not> isRegionExpired (readFlow w) region s)"
    by simp
qed

theorem C10_check_frame_witness:
  "CheckWrite (envAt 10) hotSpot1 hotRegion noStats = Inr ([item2], hotSpot1\<lparr>windows := heap2\<rparr>)
   \<and> writeFlow (hotSpot1\<lparr>windows := heap2\<rparr>) = writeFlow hotSpot1
   \<and> readFlow (hotSpot1\<lparr>windows := heap2\<rparr>) = readFlow hotSpot1
   \<and> cells (windows (hotSpot1\<lparr>windows := heap2\<rparr>)) 0 \<noteq> cells (windows hotSpot1) 0
   \<and> \<not> nxt (windows hotSpot1) \<le> 0
   \<and> (\<exists>s \<in> getAllStoreIDs (writeFlow hotSpot1) hotRegion. \<exists>old.
         getOldHotPeerStat (writeFlow hotSpot1) (GetID hotRegion) s = Some old
         \<and> RollingBytesRate old = Some 0
         \<and> \<not> isRegionExpired (writeFlow hotSpot1) hotRegion s)"
proof -
  have a: "CheckWrite (envAt 10) hotSpot1 hotRegion noStats
      = Inr ([item2], hotSpot1\<lparr>windows := heap2\<rparr>)"
    by (simp add: eval_defs hotSpot1_def)
  have b: "cells (windows (hotSpot1\<lparr>windows := heap2\<rparr>)) 0 \<noteq> cells (windows hotSpot1) 0"
    "\<not> nxt (windows hotSpot1) \<le> 0"
    by (simp_all add: eval_defs hotSpot1_def)
  from C10_check_frame [of "envAt 10" hotSpot1 hotRegion noStats "[item2]" "hotSpot1\<lparr>windows := heap2\<rparr>",
      THEN conjunct1, rule_format, OF a] b
  show ?thesis using a by blast
qed

text \<open>
  C10 as stated fails. After the first hot heartbeat is applied, the cached stat \<open>item1\<close>
  owns the window at address 0, which holds one sample. The next check returns its
  candidate and, without any \<^verbatim>\<open>Update\<close>, the window at address 0 holds two samples.
\<close>
theorem C10_check_adds_sample_to_cached_window_counterexample:
  "CheckWrite (envAt 0) NewHotSpotCache hotRegion noStats
       = Inr ([item1], NewHotSpotCache\<lparr>windows := heap1\<rparr>)
   \<and> HotSpotCacheUpdate (NewHotSpotCache\<lparr>windows := heap1\<rparr>) item1 = hotSpot1
   \<and> getOldHotPeerStat (writeFlow hotSpot1) (GetID hotRegion) 1 = Some item1
   \<and> RollingBytesRate item1 = Some 0
   \<and> records (cells (windows hotSpot1) 0) = [524288]
   \<and> CheckWrite (envAt 10) hotSpot1 hotRegion noStats
       = Inr ([item2], hotSpot1\<lparr>windows := heap2\<rparr>)
   \<and> records (cells (windows (hotSpot1\<lparr>windows := heap2\<rparr>)) 0) = [524288, 3145728]
   \<and> cells (windows (hotSpot1\<lparr>windows := heap2\<rparr>)) 0 \<noteq> cells (windows hotSpot1) 0"
  by (simp add: eval_defs hotSpot1_def HotSpotCacheUpdate_def)

end
